theory Spec2Isabelle
  imports Complex_Main
begin

section \<open>The topology-up plugin of pyats.contrib\<close>

text \<open>
  A shallow embedding of \<^verbatim>\<open>src/pyats/contrib/plugins/topoup_plugin/topoup.py\<close>:
  the argument parser's three options, the pre-job hook \<^verbatim>\<open>TopologyUpPlugin.pre_job\<close>
  and the per-device retry loop \<^verbatim>\<open>device_connect\<close>.

  Time is a real number of seconds: the rounding of Python's floats is not modelled,
  and neither are the float values inf and nan nor the \<^verbatim>\<open>OverflowError\<close> of
  \<^verbatim>\<open>float\<close> on an integer beyond the range of a float.
\<close>

subsection \<open>Python values and exceptions\<close>

text \<open>
  The values an \<^verbatim>\<open>argparse\<close> option with \<^verbatim>\<open>action='store'\<close> and no \<^verbatim>\<open>type\<close>
  can hold: its default (here \<^verbatim>\<open>None\<close>, \<^verbatim>\<open>120\<close> or \<^verbatim>\<open>10\<close>), the string given on the
  command line, or whatever a caller stores in the namespace.
\<close>

datatype pyval = PyNone | PyBool bool | PyInt int | PyFloat real | PyStr string

datatype error = TypeError | ValueError | IndexError | Exception string

text \<open>Python's truth value of an object, as \<^verbatim>\<open>if x:\<close> tests it.\<close>

fun truthy :: "pyval \<Rightarrow> bool" where
  "truthy PyNone = False"
| "truthy (PyBool b) = b"
| "truthy (PyInt i) = (i \<noteq> 0)"
| "truthy (PyFloat r) = (r \<noteq> 0)"
| "truthy (PyStr s) = (s \<noteq> [])"

text \<open>The numeric value of an int, a float or a bool (a bool is an int in Python).\<close>

fun py_num :: "pyval \<Rightarrow> real option" where
  "py_num (PyBool b) = Some (if b then 1 else 0)"
| "py_num (PyInt i) = Some (real_of_int i)"
| "py_num (PyFloat r) = Some r"
| "py_num PyNone = None"
| "py_num (PyStr s) = None"

text \<open>
  What the plugin takes from its surroundings: Python's \<^verbatim>\<open>float\<close> on a string
  (\<open>None\<close> where it raises \<^verbatim>\<open>ValueError\<close>), and the delay between the fan-out of
  \<^verbatim>\<open>pcall\<close> and the moment its \<open>i\<close>-th child process enters the target function.
\<close>

record host =
  str_to_float :: "string \<Rightarrow> real option"
  spawn_delay :: "nat \<Rightarrow> real"

text \<open>\<^verbatim>\<open>float(x)\<close>.\<close>

fun py_float :: "host \<Rightarrow> pyval \<Rightarrow> error + real" where
  "py_float h PyNone = Inl TypeError"
| "py_float h (PyStr s) =
     (case str_to_float h s of None \<Rightarrow> Inl ValueError | Some r \<Rightarrow> Inr r)"
| "py_float h v = (case py_num v of None \<Rightarrow> Inl TypeError | Some r \<Rightarrow> Inr r)"

text \<open>\<^verbatim>\<open>x - y\<close> for a float \<open>y\<close>: defined on numbers only, a string or \<^verbatim>\<open>None\<close> raises.\<close>

definition py_sub :: "pyval \<Rightarrow> real \<Rightarrow> error + real" where
  "py_sub x y = (case py_num x of None \<Rightarrow> Inl TypeError | Some r \<Rightarrow> Inr (r - y))"

subsection \<open>Devices, the clock and the effects of a run\<close>

text \<open>
  A device is opaque to the plugin: it has a name and a \<^verbatim>\<open>connect\<close> operation that
  returns or raises. \<open>connect_ok d k\<close> tells whether the call made after \<open>k\<close> earlier
  calls returns, \<open>connect_secs d k\<close> how long that call takes.
\<close>

record device =
  name :: string
  connect_ok :: "nat \<Rightarrow> bool"
  connect_secs :: "nat \<Rightarrow> real"

datatype log_line =
    PluginDisabled
  | Timers pyval pyval
  | ConnectFailed string pyval real
  | Connected string

text \<open>
  The state a process threads through: the wall clock that \<^verbatim>\<open>time()\<close> reads, the
  number of \<^verbatim>\<open>connect\<close> calls made, the sleeps taken, the number of \<^verbatim>\<open>pcall\<close>
  fan-outs, and the lines written to the logger.
\<close>

record world =
  now :: real
  tries :: nat
  naps :: "real list"
  fanouts :: nat
  logged :: "log_line list"

definition log_info :: "log_line \<Rightarrow> world \<Rightarrow> world" where
  "log_info l w = w\<lparr>logged := logged w @ [l]\<rparr>"

text \<open>\<^verbatim>\<open>device.connect()\<close>: \<open>True\<close> when it returns, \<open>False\<close> when it raises.\<close>

definition connect :: "device \<Rightarrow> world \<Rightarrow> bool \<times> world" where
  "connect d w =
     (connect_ok d (tries w),
      w\<lparr>now := now w + connect_secs d (tries w), tries := Suc (tries w)\<rparr>)"

text \<open>
  \<^verbatim>\<open>time.sleep(x)\<close>: a \<^verbatim>\<open>TypeError\<close> for a value that is not a number, a
  \<^verbatim>\<open>ValueError\<close> for a negative one.
\<close>

definition sleep :: "pyval \<Rightarrow> world \<Rightarrow> error + world" where
  "sleep x w =
     (case py_num x of
        None \<Rightarrow> Inl TypeError
      | Some s \<Rightarrow>
          if s < 0 then Inl ValueError
          else Inr (w\<lparr>now := now w + s, naps := naps w @ [s]\<rparr>))"

subsection \<open>The retry loop\<close>

text \<open>
  \<^verbatim>\<open>
  def device_connect(device, start_time, timeout, interval):
      time_difference = time() - start_time
      while (time() - start_time) < float(timeout):
          try:
              device.connect()
          except:
              log.info("Connecting to device '{device}' failed. Sleeping for '{interval}' seconds "
                  "and retry, remaining time {remaining_time}".format(
                  device=device, interval=interval, remaining_time=timeout-time_difference))
              sleep(interval)
              continue
          else:
              log.info("Successfully connected to '{device}'".format(device=device))
              return True
      return False
  \<close>
  The loop may run forever (an interval of zero and a device that never connects), so
  its model returns an option: \<open>None\<close> is "does not return". A returned value is the
  boolean or the exception that leaves the function, with the state reached.
\<close>

partial_function (option) device_connect_loop ::
  "host \<Rightarrow> device \<Rightarrow> real \<Rightarrow> pyval \<Rightarrow> pyval \<Rightarrow> real \<Rightarrow> world \<Rightarrow> ((error + bool) \<times> world) option"
where
  "device_connect_loop h device start_time timeout interval time_difference w =
     (case py_float h timeout of
        Inl e \<Rightarrow> Some (Inl e, w)
      | Inr t \<Rightarrow>
          if now w - start_time < t then
            (case connect device w of
               (ok, w1) \<Rightarrow>
                 if ok then Some (Inr True, log_info (Connected (name device)) w1)
                 else
                   (case py_sub timeout time_difference of
                      Inl e \<Rightarrow> Some (Inl e, w1)
                    | Inr remaining_time \<Rightarrow>
                        (case sleep interval
                                (log_info (ConnectFailed (name device) interval remaining_time) w1) of
                           Inl e \<Rightarrow>
                             Some (Inl e,
                               log_info (ConnectFailed (name device) interval remaining_time) w1)
                         | Inr w2 \<Rightarrow>
                             device_connect_loop h device start_time timeout interval
                               time_difference w2)))
          else Some (Inr False, w))"

declare device_connect_loop.simps [code]

definition device_connect ::
  "host \<Rightarrow> device \<Rightarrow> real \<Rightarrow> pyval \<Rightarrow> pyval \<Rightarrow> world \<Rightarrow> ((error + bool) \<times> world) option"
where
  "device_connect h device start_time timeout interval w =
     (let time_difference = now w - start_time
      in device_connect_loop h device start_time timeout interval time_difference w)"

subsection \<open>The command line\<close>

text \<open>
  \<^verbatim>\<open>configure_parser\<close> adds three options to the parser, each with
  \<^verbatim>\<open>action='store'\<close> and no \<^verbatim>\<open>type\<close>. The option strings have one dash for the
  legacy command line and two otherwise.
\<close>

record argument =
  option_strings :: "string list"
  dest :: string
  action :: string
  default :: pyval

definition configure_parser :: "bool \<Rightarrow> argument list" where
  "configure_parser legacy_cli =
     (let all_devices_up =
            (if legacy_cli then [''-ignore-all-devices-up'']
             else [''--ignore-all-devices-up'']);
          connection_check_timeout =
            (if legacy_cli then [''-connection-check-timeout'']
             else [''--connection-check-timeout'']);
          connection_check_interval =
            (if legacy_cli then [''-connection-check-interval'']
             else [''--connection-check-interval''])
      in [\<lparr>option_strings = all_devices_up, dest = ''all_devices_up'',
             action = ''store'', default = PyNone\<rparr>,
          \<lparr>option_strings = connection_check_timeout, dest = ''connection_check_timeout'',
             action = ''store'', default = PyInt 120\<rparr>,
          \<lparr>option_strings = connection_check_interval, dest = ''connection_check_interval'',
             action = ''store'', default = PyInt 10\<rparr>])"

text \<open>The namespace \<^verbatim>\<open>self.runtime.args\<close>, as far as the plugin reads it.\<close>

record args =
  all_devices_up :: pyval
  connection_check_timeout :: pyval
  connection_check_interval :: pyval

definition setattr :: "args \<Rightarrow> string \<Rightarrow> pyval \<Rightarrow> args" where
  "setattr ns d v =
     (if d = ''all_devices_up'' then ns\<lparr>all_devices_up := v\<rparr>
      else if d = ''connection_check_timeout'' then ns\<lparr>connection_check_timeout := v\<rparr>
      else if d = ''connection_check_interval'' then ns\<lparr>connection_check_interval := v\<rparr>
      else ns)"

text \<open>
  What \<^verbatim>\<open>argparse\<close> does with these options: the namespace starts from the defaults,
  and a \<^verbatim>\<open>store\<close> action with no \<^verbatim>\<open>type\<close> keeps the word that follows the option
  as the string it is. Words that are no option of the plugin are left to the host.
  Only the form \<^verbatim>\<open>option value\<close> is modelled: \<^verbatim>\<open>option=value\<close>, abbreviated
  options and the usage error for an option with no value are not.
\<close>

definition defaults :: "argument list \<Rightarrow> args" where
  "defaults ps =
     fold (\<lambda>a ns. setattr ns (dest a) (default a)) ps
       \<lparr>all_devices_up = PyNone, connection_check_timeout = PyNone,
        connection_check_interval = PyNone\<rparr>"

fun store_args :: "argument list \<Rightarrow> string list \<Rightarrow> args \<Rightarrow> args" where
  "store_args ps (x # v # argv) ns =
     (case find (\<lambda>a. x \<in> set (option_strings a)) ps of
        Some a \<Rightarrow> store_args ps argv (setattr ns (dest a) (PyStr v))
      | None \<Rightarrow> store_args ps (v # argv) ns)"
| "store_args ps argv ns = ns"

definition parse_args :: "bool \<Rightarrow> string list \<Rightarrow> args" where
  "parse_args legacy_cli argv =
     store_args (configure_parser legacy_cli) argv (defaults (configure_parser legacy_cli))"

subsection \<open>The parallel call\<close>

text \<open>
  \<^verbatim>\<open>pcall(target, ckwargs=..., ikwargs=[...])\<close> of the host framework forks one child
  process per element of \<^verbatim>\<open>ikwargs\<close>, calls \<^verbatim>\<open>target\<close> in each with the common and
  the individual keyword arguments, waits for all of them and returns their results in
  the order of \<^verbatim>\<open>ikwargs\<close>. The children run side by side: each starts from the clock of
  the fan-out (plus its spawn delay) and advances a clock of its own. Joined, the parent's
  clock is the latest of the children's and their effects are added to the parent's.
  An exception in a child is raised in the parent; a child that never returns keeps
  the parent waiting for ever.
\<close>

record ckwargs =
  start_time_kw :: real
  timeout_kw :: pyval
  interval_kw :: pyval

record ikwargs =
  device_kw :: device

definition child :: "host \<Rightarrow> world \<Rightarrow> nat \<Rightarrow> world" where
  "child h w i =
     \<lparr>now = now w + spawn_delay h i, tries = 0, naps = [], fanouts = 0, logged = []\<rparr>"

definition join :: "world \<Rightarrow> world list \<Rightarrow> world" where
  "join w ws =
     \<lparr>now = fold max (map now ws) (now w),
      tries = tries w + sum_list (map tries ws),
      naps = naps w @ concat (map naps ws),
      fanouts = Suc (fanouts w) + sum_list (map fanouts ws),
      logged = logged w @ concat (map logged ws)\<rparr>"

fun collect :: "(error + 'a) list \<Rightarrow> error + 'a list" where
  "collect [] = Inr []"
| "collect (Inl e # rs) = Inl e"
| "collect (Inr x # rs) = (case collect rs of Inl e \<Rightarrow> Inl e | Inr xs \<Rightarrow> Inr (x # xs))"

definition pcall_children ::
  "host \<Rightarrow> (device \<Rightarrow> real \<Rightarrow> pyval \<Rightarrow> pyval \<Rightarrow> world \<Rightarrow> ((error + bool) \<times> world) option) \<Rightarrow>
   ckwargs \<Rightarrow> ikwargs list \<Rightarrow> world \<Rightarrow> ((error + bool) \<times> world) option list"
where
  "pcall_children h target ck iks w =
     map (\<lambda>(i, ik).
            target (device_kw ik) (start_time_kw ck) (timeout_kw ck) (interval_kw ck)
              (child h w i))
       (enumerate 0 iks)"

definition pcall ::
  "host \<Rightarrow> (device \<Rightarrow> real \<Rightarrow> pyval \<Rightarrow> pyval \<Rightarrow> world \<Rightarrow> ((error + bool) \<times> world) option) \<Rightarrow>
   ckwargs \<Rightarrow> ikwargs list \<Rightarrow> world \<Rightarrow> ((error + bool list) \<times> world) option"
where
  "pcall h target ck iks w =
     (case those (pcall_children h target ck iks w) of
        None \<Rightarrow> None
      | Some rs \<Rightarrow> Some (collect (map fst rs), join w (map snd rs)))"

subsection \<open>The pre-job hook\<close>

text \<open>
  \<^verbatim>\<open>
  def pre_job(self, task):
      ignore_devices_up = self.runtime.args.all_devices_up
      if ignore_devices_up:
          log.info("TopologyUp Plugin is disabled, ...")
          return
      start_time = time()
      timeout = self.runtime.args.connection_check_timeout
      interval = self.runtime.args.connection_check_interval
      log.info("Connectivity check timeout is '{timeout}' and "
          "connectivity check interval is '{interval}'".format(timeout=timeout, interval=interval))
      pcall_output = pcall(device_connect,
          ckwargs = {'start_time': start_time, 'timeout': timeout, 'interval': interval},
          ikwargs = [{'device':self.runtime.testbed.devices[dev]} for dev in self.runtime.testbed.devices])
      if not (pcall_output[0] and pcall_output[1]):
          raise Exception ("Not all the testbed devices are up and ready")
      return
  \<close>
  The devices of the testbed are a dictionary from names to devices, here the list of
  its items in the order of iteration.
\<close>

record runtime =
  args :: args
  testbed_devices :: "(string \<times> device) list"

text \<open>\<^verbatim>\<open>xs[i]\<close> for an index that is not negative.\<close>

definition getitem :: "'a list \<Rightarrow> nat \<Rightarrow> error + 'a" where
  "getitem xs i = (if i < length xs then Inr (xs ! i) else Inl IndexError)"

text \<open>\<^verbatim>\<open>pcall_output[0] and pcall_output[1]\<close>: the second operand is evaluated only
  when the first is true.\<close>

definition first_and_second :: "bool list \<Rightarrow> error + bool" where
  "first_and_second pcall_output =
     (case getitem pcall_output 0 of
        Inl e \<Rightarrow> Inl e
      | Inr a \<Rightarrow> if a then getitem pcall_output 1 else Inr a)"

text \<open>\<^verbatim>\<open>if not (...): raise Exception("Not all the testbed devices are up and ready")\<close>\<close>

definition raise_unless_up :: "bool list \<Rightarrow> error + unit" where
  "raise_unless_up pcall_output =
     (case first_and_second pcall_output of
        Inl e \<Rightarrow> Inl e
      | Inr up \<Rightarrow>
          if \<not> up then Inl (Exception ''Not all the testbed devices are up and ready'')
          else Inr ())"

definition pre_job :: "host \<Rightarrow> runtime \<Rightarrow> world \<Rightarrow> ((error + unit) \<times> world) option" where
  "pre_job h runtime w =
     (let ignore_devices_up = all_devices_up (args runtime)
      in if truthy ignore_devices_up then Some (Inr (), log_info PluginDisabled w)
         else
           (let start_time = now w;
                timeout = connection_check_timeout (args runtime);
                interval = connection_check_interval (args runtime);
                w1 = log_info (Timers timeout interval) w
            in case pcall h (device_connect h)
                      \<lparr>start_time_kw = start_time, timeout_kw = timeout, interval_kw = interval\<rparr>
                      [\<lparr>device_kw = d\<rparr>. (dev, d) \<leftarrow> testbed_devices runtime] w1 of
                 None \<Rightarrow> None
               | Some (Inl e, w2) \<Rightarrow> Some (Inl e, w2)
               | Some (Inr pcall_output, w2) \<Rightarrow> Some (raise_unless_up pcall_output, w2)))"

subsection \<open>Example inputs\<close>

text \<open>
  A host whose \<^verbatim>\<open>float\<close> reads strings of decimal digits and whose children start
  at once, a state with nothing done yet, a device that always connects, one that
  never does, and one that connects at the second attempt.
\<close>

definition digits_to_float :: "string \<Rightarrow> real option" where
  "digits_to_float s =
     (if s \<noteq> [] \<and> list_all (\<lambda>c. c \<in> set ''0123456789'') s
      then Some (real (foldl (\<lambda>n c. 10 * n + (of_char c - 48)) (0::nat) s))
      else None)"

definition prompt_host :: host where
  "prompt_host = \<lparr>str_to_float = digits_to_float, spawn_delay = (\<lambda>i. 0)\<rparr>"

definition fresh :: "real \<Rightarrow> world" where
  "fresh t = \<lparr>now = t, tries = 0, naps = [], fanouts = 0, logged = []\<rparr>"

definition reachable :: "string \<Rightarrow> device" where
  "reachable n = \<lparr>name = n, connect_ok = (\<lambda>k. True), connect_secs = (\<lambda>k. 0)\<rparr>"

definition unreachable :: "string \<Rightarrow> device" where
  "unreachable n = \<lparr>name = n, connect_ok = (\<lambda>k. False), connect_secs = (\<lambda>k. 0)\<rparr>"

definition booting :: "string \<Rightarrow> device" where
  "booting n = \<lparr>name = n, connect_ok = (\<lambda>k. 0 < k), connect_secs = (\<lambda>k. 0)\<rparr>"

text \<open>A host whose second and later children start five seconds after the fan-out.\<close>

definition late_host :: host where
  "late_host = \<lparr>str_to_float = digits_to_float, spawn_delay = (\<lambda>i. if i = 0 then 0 else 5)\<rparr>"

section \<open>Properties\<close>

lemmas run_defs = device_connect_def connect_def sleep_def py_sub_def log_info_def
  pre_job_def pcall_def pcall_children_def child_def join_def raise_unless_up_def
  first_and_second_def getitem_def parse_args_def configure_parser_def defaults_def
  setattr_def prompt_host_def late_host_def fresh_def reachable_def unreachable_def
  booting_def digits_to_float_def Let_def

subsection \<open>One round of the retry loop\<close>

lemma py_float_num: "py_num v = Some r \<Longrightarrow> py_float h v = Inr r"
  by (cases v) auto

lemma loop_expired:
  "py_float h timeout = Inr T \<Longrightarrow> T \<le> now w - start_time \<Longrightarrow>
   device_connect_loop h d start_time timeout interval td w = Some (Inr False, w)"
  by (subst device_connect_loop.simps) simp

lemma loop_connects:
  "py_float h timeout = Inr T \<Longrightarrow> now w - start_time < T \<Longrightarrow> connect_ok d (tries w) \<Longrightarrow>
   device_connect_loop h d start_time timeout interval td w =
     Some (Inr True, log_info (Connected (name d)) (snd (connect d w)))"
  by (subst device_connect_loop.simps) (simp add: connect_def)

lemma loop_type_error:
  "py_float h timeout = Inr T \<Longrightarrow> now w - start_time < T \<Longrightarrow> \<not> connect_ok d (tries w) \<Longrightarrow>
   py_num timeout = None \<Longrightarrow>
   device_connect_loop h d start_time timeout interval td w =
     Some (Inl TypeError, snd (connect d w))"
  by (subst device_connect_loop.simps) (simp add: connect_def py_sub_def)

lemma loop_retry:
  assumes "py_num timeout = Some T" "py_num interval = Some I" "0 \<le> I"
    and "now w - start_time < T" "\<not> connect_ok d (tries w)"
  shows "\<exists>w2. device_connect_loop h d start_time timeout interval td w =
              device_connect_loop h d start_time timeout interval td w2
            \<and> now w2 = now w + connect_secs d (tries w) + I
            \<and> tries w2 = Suc (tries w) \<and> naps w2 = naps w @ [I]"
proof -
  have "py_float h timeout = Inr T" using assms(1) by (rule py_float_num)
  with assms have
    "device_connect_loop h d start_time timeout interval td w =
     device_connect_loop h d start_time timeout interval td
       (w\<lparr>tries := Suc (tries w),
          logged := logged w @ [ConnectFailed (name d) interval (T - td)],
          now := now w + connect_secs d (tries w) + I,
          naps := naps w @ [I]\<rparr>)"
    by (subst device_connect_loop.simps)
       (simp add: connect_def py_sub_def sleep_def log_info_def)
  then show ?thesis
    by (intro exI conjI) (assumption, simp_all)
qed

lemma loop_always_fails:
  assumes "py_num timeout = Some T" "py_num interval = Some I" "0 < I"
    and "\<forall>k. \<not> connect_ok d k" "\<forall>k. connect_secs d k = 0"
  shows "T - (now w - start_time) \<le> real n * I \<Longrightarrow> now w - start_time \<le> T + I \<Longrightarrow>
         \<exists>w'. device_connect_loop h d start_time timeout interval td w = Some (Inr False, w')
              \<and> now w' - start_time \<le> T + I"
proof (induction n arbitrary: w)
  case 0
  then have "T \<le> now w - start_time" by simp
  with assms(1) 0 show ?case by (auto simp: loop_expired py_float_num)
next
  case (Suc n)
  show ?case
  proof (cases "T \<le> now w - start_time")
    case True
    with assms(1) Suc.prems show ?thesis by (auto simp: loop_expired py_float_num)
  next
    case False
    then have "now w - start_time < T" by simp
    with assms obtain w2 where
      step: "device_connect_loop h d start_time timeout interval td w =
             device_connect_loop h d start_time timeout interval td w2"
      and now2: "now w2 = now w + I"
      using loop_retry[of timeout T interval I w start_time d h td] by auto
    have "T - (now w2 - start_time) \<le> real n * I"
      using Suc.prems(1) now2 by (simp add: algebra_simps)
    moreover have "now w2 - start_time \<le> T + I" using False now2 by simp
    ultimately show ?thesis using Suc.IH[of w2] step by simp
  qed
qed

lemma enough_rounds: "0 < I \<Longrightarrow> x \<le> real (nat \<lceil>x / I\<rceil>) * I"
proof -
  assume I: "0 < I"
  have "x / I \<le> real (nat \<lceil>x / I\<rceil>)" by linarith
  with I show ?thesis by (simp add: pos_divide_le_eq)
qed

text \<open>
  With a numeric timeout and a positive numeric interval every failed attempt is followed
  by a sleep and another test of the deadline, and the loop ends with a boolean.
\<close>

lemma loop_numeric_returns_bool:
  assumes "py_num timeout = Some T" "py_num interval = Some I" "0 < I"
    and "\<forall>k. 0 \<le> connect_secs d k"
  shows "T - (now w - start_time) \<le> real n * I \<Longrightarrow>
         \<exists>b w'. device_connect_loop h d start_time timeout interval td w = Some (Inr b, w')"
proof (induction n arbitrary: w)
  case 0
  then have "T \<le> now w - start_time" by simp
  with assms(1) show ?case by (auto simp: loop_expired py_float_num)
next
  case (Suc n)
  consider (expired) "T \<le> now w - start_time"
    | (up) "now w - start_time < T" "connect_ok d (tries w)"
    | (down) "now w - start_time < T" "\<not> connect_ok d (tries w)"
    by fastforce
  then show ?case
  proof cases
    case expired
    with assms(1) show ?thesis by (auto simp: loop_expired py_float_num)
  next
    case up
    with assms(1) show ?thesis by (auto simp: loop_connects py_float_num)
  next
    case down
    with assms obtain w2 where
      step: "device_connect_loop h d start_time timeout interval td w =
             device_connect_loop h d start_time timeout interval td w2"
      and now2: "now w2 = now w + connect_secs d (tries w) + I"
      using loop_retry[of timeout T interval I w start_time d h td] by auto
    have "0 \<le> connect_secs d (tries w)" using assms(4) by simp
    then have "T - (now w2 - start_time) \<le> real n * I"
      using Suc.prems now2 by (simp add: algebra_simps)
    then show ?thesis using Suc.IH[of w2] step by simp
  qed
qed

lemma device_connect_numeric_returns_bool:
  assumes "py_num timeout = Some T" "py_num interval = Some I" "0 < I"
    and "\<forall>k. 0 \<le> connect_secs d k"
  shows "\<exists>b w'. device_connect h d start_time timeout interval w = Some (Inr b, w')"
  unfolding device_connect_def Let_def
  using loop_numeric_returns_bool[OF assms enough_rounds[OF assms(3)]] .

subsection \<open>The parallel call of the pre-job hook\<close>



subsection \<open>The aggregate check\<close>

text \<open>
  Claim C1. For a testbed that is not empty the hook should raise the aggregate error
  exactly when the conjunction of all the per-device outcomes is false. The code tests
  \<^verbatim>\<open>pcall_output[0] and pcall_output[1]\<close> only. With three devices of which the third
  never connects (timeout 3, interval 1) the outcomes are \<^verbatim>\<open>True, True, False\<close>, and
  the hook returns without an error.
\<close>

theorem pre_job_misses_third_device:
  "pcall prompt_host (device_connect prompt_host)
     \<lparr>start_time_kw = 0, timeout_kw = PyInt 3, interval_kw = PyInt 1\<rparr>
     [\<lparr>device_kw = reachable ''A''\<rparr>, \<lparr>device_kw = reachable ''B''\<rparr>,
      \<lparr>device_kw = unreachable ''C''\<rparr>]
     (fresh 0)
   = Some (Inr [True, True, False],
       \<lparr>now = 3, tries = 5, naps = [1, 1, 1], fanouts = 1,
        logged = [Connected ''A'', Connected ''B'', ConnectFailed ''C'' (PyInt 1) 3,
                  ConnectFailed ''C'' (PyInt 1) 3, ConnectFailed ''C'' (PyInt 1) 3]\<rparr>)
   \<and> map_option fst (pre_job prompt_host
       \<lparr>args = \<lparr>all_devices_up = PyNone, connection_check_timeout = PyInt 3,
                connection_check_interval = PyInt 1\<rparr>,
        testbed_devices = [(''A'', reachable ''A''), (''B'', reachable ''B''),
                           (''C'', unreachable ''C'')]\<rparr> (fresh 0)) = Some (Inr ())"
  by (simp add: run_defs device_connect_loop.simps)

subsection \<open>The disabled hook\<close>

text \<open>
  Claim C2. When the value of the flag is true, \<^verbatim>\<open>pre_job\<close> returns at once and
  without an error, whatever the devices are: no \<^verbatim>\<open>connect\<close> call is made, no
  \<^verbatim>\<open>pcall\<close> is started, nothing sleeps and the clock does not move.
\<close>

theorem pre_job_disabled:
  assumes "truthy (all_devices_up (args runtime))"
  shows "\<exists>w'. pre_job h runtime w = Some (Inr (), w')
              \<and> tries w' = tries w \<and> fanouts w' = fanouts w \<and> naps w' = naps w
              \<and> now w' = now w"
  using assms by (simp add: pre_job_def log_info_def)

theorem pre_job_disabled_witness:
  "truthy (all_devices_up (args \<lparr>args = \<lparr>all_devices_up = PyBool True,
        connection_check_timeout = PyInt 120, connection_check_interval = PyInt 10\<rparr>,
      testbed_devices = [(''A'', unreachable ''A''), (''B'', unreachable ''B'')]\<rparr>))
   \<and> (\<exists>w'. pre_job prompt_host
        \<lparr>args = \<lparr>all_devices_up = PyBool True,
           connection_check_timeout = PyInt 120, connection_check_interval = PyInt 10\<rparr>,
         testbed_devices = [(''A'', unreachable ''A''), (''B'', unreachable ''B'')]\<rparr> (fresh 0)
        = Some (Inr (), w')
      \<and> tries w' = tries (fresh 0) \<and> fanouts w' = fanouts (fresh 0) \<and> naps w' = naps (fresh 0)
      \<and> now w' = now (fresh 0))"
  using pre_job_disabled [of "\<lparr>args = \<lparr>all_devices_up = PyBool True,
        connection_check_timeout = PyInt 120, connection_check_interval = PyInt 10\<rparr>,
      testbed_devices = [(''A'', unreachable ''A''), (''B'', unreachable ''B'')]\<rparr>" prompt_host "fresh 0"]
  by simp

subsection \<open>The retry loop gives up in time\<close>

text \<open>
  Claim C3. A device whose \<^verbatim>\<open>connect\<close> always fails, a numeric timeout \<open>T\<close> and a
  numeric interval \<open>I > 0\<close>; a failed attempt advances the clock by \<open>I\<close> only (the
  call to \<^verbatim>\<open>connect\<close> itself takes no time), and the function is entered no later than
  \<open>T + I\<close> seconds after the shared start. Then \<^verbatim>\<open>device_connect\<close> returns, its
  result is \<^verbatim>\<open>False\<close>, and it returns no later than \<open>T + I\<close> seconds after the start.
\<close>

theorem device_connect_gives_up_in_time:
  assumes "py_num timeout = Some T" "py_num interval = Some I" "0 < I"
    and "\<forall>k. \<not> connect_ok d k" "\<forall>k. connect_secs d k = 0"
    and "now w - start_time \<le> T + I"
  shows "\<exists>w'. device_connect h d start_time timeout interval w = Some (Inr False, w')
              \<and> now w' - start_time \<le> T + I"
  unfolding device_connect_def Let_def
  using loop_always_fails[OF assms(1-5) enough_rounds[OF assms(3)] assms(6)] by blast

theorem device_connect_gives_up_in_time_witness:
  "py_num (PyInt 3) = Some 3 \<and> py_num (PyInt 1) = Some 1 \<and> (0::real) < 1
   \<and> (\<forall>k. \<not> connect_ok (unreachable ''A'') k)
   \<and> (\<forall>k. connect_secs (unreachable ''A'') k = 0)
   \<and> now (fresh 1000) - 1000 \<le> (3::real) + 1
   \<and> (\<exists>w'. device_connect prompt_host (unreachable ''A'') 1000 (PyInt 3) (PyInt 1) (fresh 1000)
              = Some (Inr False, w') \<and> now w' - 1000 \<le> 3 + 1)"
  using device_connect_gives_up_in_time
          [of "PyInt 3" 3 "PyInt 1" 1 "unreachable ''A''" "fresh 1000" 1000 prompt_host]
  by (simp add: unreachable_def fresh_def)

subsection \<open>Failed attempts\<close>

text \<open>
  Claim C4. Every failed attempt should be caught, logged and followed by a sleep and
  another attempt, and \<^verbatim>\<open>device_connect\<close> should end with a boolean (its
  docstring: \<^verbatim>\<open>Raises: None\<close>). With \<^verbatim>\<open>-connection-check-timeout 120\<close> on the
  command line the timeout is the string \<^verbatim>\<open>'120'\<close>: for a device that would connect
  at its second attempt the first failure is caught, but the handler raises
  \<^verbatim>\<open>TypeError\<close> before it logs or sleeps, and the exception leaves the function.
  With the default timeout, the integer 120, the same device is reported connected
  after one sleep. An interval given on the command line is a string as well, and
  \<^verbatim>\<open>sleep\<close> raises \<^verbatim>\<open>TypeError\<close> on it after the log line.
\<close>

theorem device_connect_cli_timeout_raises:
  "connection_check_timeout (parse_args True [''-connection-check-timeout'', ''120'']) = PyStr ''120''
   \<and> device_connect prompt_host (booting ''A'') 0
       (connection_check_timeout (parse_args True [''-connection-check-timeout'', ''120'']))
       (connection_check_interval (parse_args True [''-connection-check-timeout'', ''120'']))
       (fresh 0)
     = Some (Inl TypeError, \<lparr>now = 0, tries = 1, naps = [], fanouts = 0, logged = []\<rparr>)
   \<and> device_connect prompt_host (booting ''A'') 0
       (connection_check_timeout (parse_args True []))
       (connection_check_interval (parse_args True []))
       (fresh 0)
     = Some (Inr True, \<lparr>now = 10, tries = 2, naps = [10], fanouts = 0,
         logged = [ConnectFailed ''A'' (PyInt 10) 120, Connected ''A'']\<rparr>)
   \<and> device_connect prompt_host (booting ''A'') 0
       (connection_check_timeout (parse_args True [''-connection-check-interval'', ''10'']))
       (connection_check_interval (parse_args True [''-connection-check-interval'', ''10'']))
       (fresh 0)
     = Some (Inl TypeError, \<lparr>now = 0, tries = 1, naps = [], fanouts = 0,
         logged = [ConnectFailed ''A'' (PyStr ''10'') 120]\<rparr>)"
  by (simp add: run_defs device_connect_loop.simps)

subsection \<open>The deadline\<close>

text \<open>
  Claim C5. When \<^verbatim>\<open>device_connect\<close> is entered with the time since the shared start
  equal to the timeout or beyond it, it returns \<^verbatim>\<open>False\<close> and leaves the state as it
  found it: no connection attempt, no sleep, no log line.
\<close>

theorem device_connect_deadline_passed:
  assumes "py_float h timeout = Inr T" and "T \<le> now w - start_time"
  shows "device_connect h d start_time timeout interval w = Some (Inr False, w)"
  using assms by (simp add: device_connect_def loop_expired)

theorem device_connect_deadline_passed_witness:
  "py_float prompt_host (PyInt 120) = Inr 120 \<and> (120::real) \<le> now (fresh 1120) - 1000
   \<and> device_connect prompt_host (reachable ''A'') 1000 (PyInt 120) (PyInt 10) (fresh 1120)
       = Some (Inr False, fresh 1120)"
  using device_connect_deadline_passed
          [of prompt_host "PyInt 120" 120 "fresh 1120" 1000 "reachable ''A''" "PyInt 10"]
  by (simp add: fresh_def)

text \<open>
  Claim C6. When the deadline has not passed and the next \<^verbatim>\<open>connect\<close> call of the
  device succeeds, \<^verbatim>\<open>device_connect\<close> returns \<^verbatim>\<open>True\<close> after exactly one attempt
  and without a sleep.
\<close>

theorem device_connect_first_attempt:
  assumes "py_float h timeout = Inr T" and "now w - start_time < T"
    and "connect_ok d (tries w)"
  shows "\<exists>w'. device_connect h d start_time timeout interval w = Some (Inr True, w')
              \<and> tries w' = Suc (tries w) \<and> naps w' = naps w"
  using assms by (simp add: device_connect_def loop_connects connect_def log_info_def)

theorem device_connect_first_attempt_witness:
  "py_float prompt_host (PyStr ''120'') = Inr 120 \<and> now (fresh 1000) - 1000 < (120::real)
   \<and> connect_ok (reachable ''A'') (tries (fresh 1000))
   \<and> (\<exists>w'. device_connect prompt_host (reachable ''A'') 1000 (PyStr ''120'') (PyInt 10) (fresh 1000)
              = Some (Inr True, w')
            \<and> tries w' = Suc (tries (fresh 1000)) \<and> naps w' = naps (fresh 1000))"
  using device_connect_first_attempt
          [of prompt_host "PyStr ''120''" 120 "fresh 1000" 1000 "reachable ''A''" "PyInt 10"]
  by (simp add: fresh_def reachable_def prompt_host_def digits_to_float_def)

subsection \<open>One start time for all devices\<close>



subsection \<open>The flag that disables the hook\<close>

text \<open>
  Claim C8. The flag should disable the hook when its value is the boolean true and
  leave it enabled for any other value. The option is stored with no conversion and
  tested for truth: \<^verbatim>\<open>--ignore-all-devices-up False\<close> stores the string
  \<^verbatim>\<open>'False'\<close>, which is true for Python, so the hook is disabled and returns without
  an attempt on devices that are down.
\<close>

theorem pre_job_disabled_by_the_word_False:
  "all_devices_up (parse_args False [''--ignore-all-devices-up'', ''False'']) = PyStr ''False''
   \<and> pre_job prompt_host
       \<lparr>args = parse_args False [''--ignore-all-devices-up'', ''False''],
        testbed_devices = [(''A'', unreachable ''A''), (''B'', unreachable ''B'')]\<rparr> (fresh 0)
     = Some (Inr (), \<lparr>now = 0, tries = 0, naps = [], fanouts = 0, logged = [PluginDisabled]\<rparr>)"
  by (simp add: run_defs)

subsection \<open>A testbed of one device\<close>

text \<open>
  Claim C9. With exactly one device in the testbed, and that device connected (its
  call of \<^verbatim>\<open>device_connect\<close> returned \<^verbatim>\<open>True\<close>), the check reads
  \<^verbatim>\<open>pcall_output[1]\<close> of a list of one element and \<^verbatim>\<open>pre_job\<close> raises
  \<^verbatim>\<open>IndexError\<close>.
\<close>

theorem pre_job_single_device_index_error:
  assumes "\<not> truthy (all_devices_up (args runtime))"
    and "testbed_devices runtime = [(dev, d)]"
    and "device_connect h d (now w) (connection_check_timeout (args runtime))
           (connection_check_interval (args runtime))
           (child h (log_info (Timers (connection_check_timeout (args runtime))
                                 (connection_check_interval (args runtime))) w) 0)
         = Some (Inr True, w')"
  shows "\<exists>w''. pre_job h runtime w = Some (Inl IndexError, w'')"
  using assms
  by (simp add: pre_job_def pcall_def pcall_children_def Let_def raise_unless_up_def
        first_and_second_def getitem_def)

theorem pre_job_single_device_index_error_witness:
  "\<not> truthy (all_devices_up (args \<lparr>args = parse_args True [], testbed_devices = [(''A'', reachable ''A'')]\<rparr>))
   \<and> testbed_devices \<lparr>args = parse_args True [], testbed_devices = [(''A'', reachable ''A'')]\<rparr>
       = [(''A'', reachable ''A'')]
   \<and> device_connect prompt_host (reachable ''A'') 0 (PyInt 120) (PyInt 10) (fresh 0)
       = Some (Inr True, \<lparr>now = 0, tries = 1, naps = [], fanouts = 0, logged = [Connected ''A'']\<rparr>)
   \<and> (\<exists>w''. pre_job prompt_host
               \<lparr>args = parse_args True [], testbed_devices = [(''A'', reachable ''A'')]\<rparr> (fresh 0)
             = Some (Inl IndexError, w''))"
  using pre_job_single_device_index_error
          [of "\<lparr>args = parse_args True [], testbed_devices = [(''A'', reachable ''A'')]\<rparr>"
              "''A''" "reachable ''A''" prompt_host "fresh 0"
              "\<lparr>now = 0, tries = 1, naps = [], fanouts = 0, logged = [Connected ''A'']\<rparr>"]
  by (simp add: run_defs device_connect_loop.simps)

subsection \<open>A timeout given on the command line\<close>

text \<open>
  Claim C10. The timeout option is stored with no conversion, so a value given on the
  command line (either form of the option) is a string \<open>s\<close>. The loop guard reads it
  with \<^verbatim>\<open>float\<close>; when that gives \<open>T\<close>, the deadline has not passed and the first
  attempt fails, the handler computes \<^verbatim>\<open>timeout - time_difference\<close> on the string:
  \<^verbatim>\<open>TypeError\<close> leaves \<^verbatim>\<open>device_connect\<close> after one attempt, with no log line
  and no sleep.
\<close>

theorem device_connect_string_timeout:
  assumes "str_to_float h s = Some T" and "now w - start_time < T"
    and "\<not> connect_ok d (tries w)"
  shows "connection_check_timeout (parse_args True [''-connection-check-timeout'', s]) = PyStr s
       \<and> connection_check_timeout (parse_args False [''--connection-check-timeout'', s]) = PyStr s
       \<and> (\<exists>w'. device_connect h d start_time (PyStr s) interval w = Some (Inl TypeError, w')
              \<and> tries w' = Suc (tries w) \<and> naps w' = naps w \<and> logged w' = logged w)"
proof -
  have "py_float h (PyStr s) = Inr T" using assms(1) by simp
  then have "device_connect h d start_time (PyStr s) interval w
             = Some (Inl TypeError, snd (connect d w))"
    using assms(2,3) by (simp add: device_connect_def loop_type_error)
  moreover have "connection_check_timeout (parse_args True [''-connection-check-timeout'', s]) = PyStr s"
    by (simp add: parse_args_def configure_parser_def defaults_def setattr_def)
  moreover have "connection_check_timeout (parse_args False [''--connection-check-timeout'', s]) = PyStr s"
    by (simp add: parse_args_def configure_parser_def defaults_def setattr_def)
  ultimately show ?thesis by (simp add: connect_def)
qed

theorem device_connect_string_timeout_witness:
  "str_to_float prompt_host ''120'' = Some 120 \<and> now (fresh 1000) - 1000 < (120::real)
   \<and> \<not> connect_ok (unreachable ''A'') (tries (fresh 1000))
   \<and> connection_check_timeout (parse_args True [''-connection-check-timeout'', ''120'']) = PyStr ''120''
   \<and> connection_check_timeout (parse_args False [''--connection-check-timeout'', ''120'']) = PyStr ''120''
   \<and> (\<exists>w'. device_connect prompt_host (unreachable ''A'') 1000 (PyStr ''120'') (PyInt 10) (fresh 1000)
              = Some (Inl TypeError, w')
            \<and> tries w' = Suc (tries (fresh 1000)) \<and> naps w' = naps (fresh 1000)
            \<and> logged w' = logged (fresh 1000))"
  using device_connect_string_timeout
          [of prompt_host "''120''" 120 "fresh 1000" 1000 "unreachable ''A''" "PyInt 10"]
  by (simp add: prompt_host_def digits_to_float_def fresh_def unreachable_def)

end
